theory Spec2Isabelle
  imports Main "HOL-Library.Word" "HOL-Library.Code_Target_Nat"
begin

section \<open>Bytes, strings and the standard-library helpers the code calls\<close>

text \<open>
  A Go \<^verbatim>\<open>string\<close> is a sequence of bytes, as is an Isabelle \<open>string\<close>; a
  \<^verbatim>\<open>[]byte\<close> is a list of 8-bit words. \<^verbatim>\<open>len\<close> is \<open>length\<close> on both.
\<close>

type_synonym byte = "8 word"
type_synonym bytes = "byte list"

definition bytes_of_string :: "string \<Rightarrow> bytes" where
  "bytes_of_string s = map of_char s"

text \<open>\<^verbatim>\<open>strings.HasPrefix(s, prefix)\<close>.\<close>

definition HasPrefix :: "string \<Rightarrow> string \<Rightarrow> bool" where
  "HasPrefix s p = (take (length p) s = p)"

text \<open>
  \<^verbatim>\<open>io.ReadFull(r, buf)\<close> with \<open>len(buf) = n\<close>: the reader is the list of bytes it
  can still deliver; the read fails when fewer than \<open>n\<close> are left.
\<close>

definition ReadFull :: "nat \<Rightarrow> bytes \<Rightarrow> bytes option" where
  "ReadFull n r = (if n \<le> length r then Some (take n r) else None)"

subsection \<open>\<^verbatim>\<open>base64.RawURLEncoding\<close>\<close>

text \<open>
  The URL-safe alphabet of RFC 4648, without padding. Encoding turns three bytes into
  four 6-bit values; one or two bytes at the end give two or three characters.
  Decoding skips carriage returns and line feeds, fails on any other character outside
  the alphabet (the padding character included), and fails when a single character is
  left over at the end; bits left over in a final group of two or three characters are
  dropped.
\<close>

definition encodeURL :: string where
  "encodeURL = ''ABCDEFGHIJKLMNOPQRSTUVWXYZabcdefghijklmnopqrstuvwxyz0123456789-_''"

fun encode_sextets :: "bytes \<Rightarrow> nat list" where
  "encode_sextets (a # b # c # rest) =
     [unat a div 4, (unat a mod 4) * 16 + unat b div 16,
      (unat b mod 16) * 4 + unat c div 64, unat c mod 64] @ encode_sextets rest"
| "encode_sextets [a, b] =
     [unat a div 4, (unat a mod 4) * 16 + unat b div 16, (unat b mod 16) * 4]"
| "encode_sextets [a] = [unat a div 4, (unat a mod 4) * 16]"
| "encode_sextets [] = []"

definition EncodeToString :: "bytes \<Rightarrow> string" where
  "EncodeToString src = map (\<lambda>n. encodeURL ! n) (encode_sextets src)"

fun index_of :: "'a \<Rightarrow> 'a list \<Rightarrow> nat option" where
  "index_of x [] = None"
| "index_of x (y # ys) = (if x = y then Some 0 else map_option Suc (index_of x ys))"

definition decodeMap :: "char \<Rightarrow> nat option" where
  "decodeMap c = index_of c encodeURL"

fun decode_sextets :: "nat list \<Rightarrow> bytes option" where
  "decode_sextets (a # b # c # d # rest) =
     map_option
       (\<lambda>tl. of_nat (a * 4 + b div 16) # of_nat ((b mod 16) * 16 + c div 4) #
              of_nat ((c mod 4) * 64 + d) # tl)
       (decode_sextets rest)"
| "decode_sextets [a, b, c] =
     Some [of_nat (a * 4 + b div 16), of_nat ((b mod 16) * 16 + c div 4)]"
| "decode_sextets [a, b] = Some [of_nat (a * 4 + b div 16)]"
| "decode_sextets [a] = None"
| "decode_sextets [] = Some []"

fun decode_chars :: "string \<Rightarrow> nat list option" where
  "decode_chars [] = Some []"
| "decode_chars (c # cs) =
     (case decodeMap c of
        None \<Rightarrow> None
      | Some n \<Rightarrow> map_option ((#) n) (decode_chars cs))"

definition DecodeString :: "string \<Rightarrow> bytes option" where
  "DecodeString s =
     (case decode_chars (filter (\<lambda>c. c \<noteq> CHR 0x0A \<and> c \<noteq> CHR 0x0D) s) of
        None \<Rightarrow> None
      | Some ns \<Rightarrow> decode_sextets ns)"

section \<open>Package crypto: the encrypted envelope\<close>

record EncryptedString =
  KeyID :: string
  Algorithm :: string
  Data :: bytes
  Nonce :: bytes

text \<open>
  The errors of the envelope functions. \<open>Panic\<close> is the panic of \<^verbatim>\<open>must(...)\<close> when
  the call it wraps returns an error.
\<close>

datatype crypto_error =
    KeyDoesNotExist string
  | CorruptInputError
  | KeyNot256Bits string
  | MessageAuthenticationFailed
  | Panic

text \<open>
  The cryptographic primitives and the JSON codec come from libraries outside the
  repository. They are parameters of the model:
  \<^item> \<open>hkdf_New secret salt info\<close>: the bytes the reader
    \<^verbatim>\<open>hkdf.New(sha256.New, secret, salt, info)\<close> delivers;
  \<^item> \<open>gcm_Seal key nonce plaintext\<close> and \<open>gcm_Open key nonce ciphertext\<close>: AES-GCM
    under \<^verbatim>\<open>cipher.NewGCM(aes.NewCipher(key))\<close> with no additional data, \<open>None\<close> when
    \<^verbatim>\<open>Open\<close> returns an error;
  \<^item> \<open>json_Unmarshal s\<close>: \<^verbatim>\<open>json.Unmarshal\<close> into an \<^verbatim>\<open>EncryptedString\<close>, \<open>None\<close> on
    an error.
\<close>

record crypto_lib =
  hkdf_New :: "bytes \<Rightarrow> bytes \<Rightarrow> bytes \<Rightarrow> bytes"
  gcm_Seal :: "bytes \<Rightarrow> bytes \<Rightarrow> bytes \<Rightarrow> bytes"
  gcm_Open :: "bytes \<Rightarrow> bytes \<Rightarrow> bytes \<Rightarrow> bytes option"
  json_Unmarshal :: "string \<Rightarrow> EncryptedString option"

definition IsValid :: "EncryptedString \<Rightarrow> bool" where
  "IsValid es \<longleftrightarrow>
     KeyID es \<noteq> [] \<and> 0 < length (Data es) \<and> 0 < length (Nonce es) \<and>
     Algorithm es = ''aes-gcm-hkdf''"

definition ShouldReEncrypt :: "EncryptedString \<Rightarrow> string \<Rightarrow> bool" where
  "ShouldReEncrypt es encryptionKeyID \<longleftrightarrow> KeyID es \<noteq> encryptionKeyID"

definition ParseEncryptedString :: "crypto_lib \<Rightarrow> string \<Rightarrow> EncryptedString option" where
  "ParseEncryptedString lib str =
     (if \<not> HasPrefix str ''{'' then None
      else
        (case json_Unmarshal lib str of
           None \<Rightarrow> None
         | Some es \<Rightarrow> if \<not> IsValid es then None else Some es))"

text \<open>\<^verbatim>\<open>aes.NewCipher\<close> returns an error unless the key has 16, 24 or 32 bytes.\<close>

definition aes_key_ok :: "bytes \<Rightarrow> bool" where
  "aes_key_ok key \<longleftrightarrow> length key = 16 \<or> length key = 24 \<or> length key = 32"

definition deriveSymmetricKey ::
  "crypto_lib \<Rightarrow> string \<Rightarrow> string \<Rightarrow> string \<Rightarrow> crypto_error + bytes" where
  "deriveSymmetricKey lib id' keyID keyBase64URL =
     (case DecodeString keyBase64URL of
        None \<Rightarrow> Inl CorruptInputError
      | Some hkdfKey \<Rightarrow>
          if length hkdfKey \<noteq> 256 div 8 then Inl (KeyNot256Bits keyID)
          else
            (case ReadFull (256 div 8) (hkdf_New lib hkdfKey [] (bytes_of_string id')) of
               None \<Rightarrow> Inl Panic
             | Some key \<Rightarrow> Inr key))"

text \<open>
  \<open>rand\<close> is what \<^verbatim>\<open>rand.Reader\<close> delivers to this call; the nonce is its first 12
  bytes.
\<close>

definition NewEncryptedString ::
  "crypto_lib \<Rightarrow> bytes \<Rightarrow> string \<Rightarrow> bytes \<Rightarrow> string \<Rightarrow> string \<Rightarrow> crypto_error + EncryptedString" where
  "NewEncryptedString lib rand id' data keyID keyBase64URL =
     (case deriveSymmetricKey lib id' keyID keyBase64URL of
        Inl err \<Rightarrow> Inl err
      | Inr key \<Rightarrow>
          if \<not> aes_key_ok key then Inl Panic
          else
            (case ReadFull 12 rand of
               None \<Rightarrow> Inl Panic
             | Some nonce \<Rightarrow>
                 Inr \<lparr>KeyID = keyID, Algorithm = ''aes-gcm-hkdf'',
                      Data = gcm_Seal lib key nonce data, Nonce = nonce\<rparr>))"

text \<open>
  The key table is a Go map from key identifier to key material; a missing key reads as
  the empty string.
\<close>

definition Decrypt ::
  "crypto_lib \<Rightarrow> EncryptedString \<Rightarrow> string \<Rightarrow> (string \<rightharpoonup> string) \<Rightarrow> crypto_error + bytes" where
  "Decrypt lib es id' decryptionKeys =
     (let decryptionKey = (case decryptionKeys (KeyID es) of None \<Rightarrow> [] | Some k \<Rightarrow> k) in
      if decryptionKey = [] then Inl (KeyDoesNotExist (KeyID es))
      else
        (case deriveSymmetricKey lib id' (KeyID es) decryptionKey of
           Inl err \<Rightarrow> Inl err
         | Inr key \<Rightarrow>
             if \<not> aes_key_ok key then Inl Panic
             else
               (case gcm_Open lib key (Nonce es) (Data es) of
                  None \<Rightarrow> Inl MessageAuthenticationFailed
                | Some decrypted \<Rightarrow> Inr decrypted)))"

text \<open>
  The contracts of the library the envelope functions rely on: HKDF-SHA256 delivers at
  least the 32 bytes read from it, opening what was sealed under the same 32-byte key
  and 12-byte nonce returns the plaintext, and a sealed message is the plaintext's
  length plus the 16-byte authentication tag.
\<close>

definition hkdf_delivers :: "crypto_lib \<Rightarrow> bool" where
  "hkdf_delivers lib \<longleftrightarrow> (\<forall>secret salt info. 32 \<le> length (hkdf_New lib secret salt info))"

definition aead_correct :: "crypto_lib \<Rightarrow> bool" where
  "aead_correct lib \<longleftrightarrow>
     (\<forall>key nonce plaintext. length key = 32 \<and> length nonce = 12 \<longrightarrow>
        gcm_Open lib key nonce (gcm_Seal lib key nonce plaintext) = Some plaintext)"

definition gcm_overhead :: "crypto_lib \<Rightarrow> bool" where
  "gcm_overhead lib \<longleftrightarrow>
     (\<forall>key nonce plaintext. length (gcm_Seal lib key nonce plaintext) = length plaintext + 16)"

section \<open>Package crypto: Ethereum signatures\<close>

definition removeHexPrefix :: "string \<Rightarrow> string" where
  "removeHexPrefix signature =
     (if HasPrefix signature ''0x'' then drop 2 signature else signature)"

text \<open>\<^verbatim>\<open>hex.DecodeString\<close>: pairs of hexadecimal digits of either case; an error otherwise.\<close>

definition fromHexChar :: "char \<Rightarrow> byte option" where
  "fromHexChar c =
     (let n = of_char c :: nat in
      if 48 \<le> n \<and> n \<le> 57 then Some (of_nat (n - 48))
      else if 97 \<le> n \<and> n \<le> 102 then Some (of_nat (n - 97 + 10))
      else if 65 \<le> n \<and> n \<le> 70 then Some (of_nat (n - 65 + 10))
      else None)"

fun hex_DecodeString :: "string \<Rightarrow> bytes option" where
  "hex_DecodeString [] = Some []"
| "hex_DecodeString [c] = None"
| "hex_DecodeString (a # b # rest) =
     (case (fromHexChar a, fromHexChar b) of
        (Some x, Some y) \<Rightarrow> map_option ((#) (x * 16 + y)) (hex_DecodeString rest)
      | _ \<Rightarrow> None)"

text \<open>The decimal rendering of \<^verbatim>\<open>%d\<close>.\<close>

fun show_nat :: "nat \<Rightarrow> string" where
  "show_nat n =
     (if n < 10 then [char_of (48 + n)]
      else show_nat (n div 10) @ [char_of (48 + n mod 10)])"

definition show_int :: "int \<Rightarrow> string" where
  "show_int i = (if i < 0 then CHR ''-'' # show_nat (nat (- i)) else show_nat (nat i))"

datatype eth_error =
    InvalidSignatureHex
  | InvalidSignatureLength
  | ErrorRecoveringPublicKey
  | SignatureNotFromExpectedAddress

text \<open>
  go-ethereum's functions are parameters: \<open>Keccak256Hash\<close>, \<open>SigToPub hash sig\<close>
  (\<open>None\<close> when it returns an error; a public key is its pair of coordinates),
  \<open>PubkeyToAddress\<close> and \<open>HexToAddress\<close> (addresses are 20-byte arrays).
\<close>

record eth_lib =
  Keccak256Hash :: "bytes \<Rightarrow> bytes"
  SigToPub :: "bytes \<Rightarrow> bytes \<Rightarrow> (int \<times> int) option"
  PubkeyToAddress :: "int \<times> int \<Rightarrow> bytes"
  HexToAddress :: "string \<Rightarrow> bytes"

text \<open>The result is the error, \<open>None\<close> for \<^verbatim>\<open>nil\<close>.\<close>

definition VerifyEthereumSignature :: "eth_lib \<Rightarrow> string \<Rightarrow> string \<Rightarrow> string \<Rightarrow> eth_error option" where
  "VerifyEthereumSignature lib message signature address =
     (let signature = removeHexPrefix signature;
          address = removeHexPrefix address
      in case hex_DecodeString signature of
           None \<Rightarrow> Some InvalidSignatureHex
         | Some sigBytes \<Rightarrow>
             if length sigBytes \<noteq> 65 then Some InvalidSignatureLength
             else
               let sigBytes = (if sigBytes ! 64 < 27
                               then sigBytes[64 := sigBytes ! 64 + 27] else sigBytes);
                   prefixedMessage =
                     CHR 0x19 # ''Ethereum Signed Message:'' @ [CHR 0x0A] @
                     show_nat (length message) @ message;
                   hash = Keccak256Hash lib (bytes_of_string prefixedMessage)
               in (case SigToPub lib hash sigBytes of
                     None \<Rightarrow> Some ErrorRecoveringPublicKey
                   | Some pubKey \<Rightarrow>
                       if PubkeyToAddress lib pubKey \<noteq> HexToAddress lib address
                       then Some SignatureNotFromExpectedAddress
                       else None))"

text \<open>
  go-ethereum's \<^verbatim>\<open>SigToPub\<close> reads the last byte of the signature as the recovery
  identifier and returns an error unless it is below 4.
\<close>

definition checks_recovery_id :: "eth_lib \<Rightarrow> bool" where
  "checks_recovery_id lib \<longleftrightarrow> (\<forall>hash sig. 4 \<le> sig ! 64 \<longrightarrow> SigToPub lib hash sig = None)"

section \<open>Package crypto: Sign-In-With-Solana\<close>

text \<open>
  A \<^verbatim>\<open>time.Time\<close> is its instant in nanoseconds since the Unix epoch; a
  \<^verbatim>\<open>time.Duration\<close> is a number of nanoseconds. The zero \<^verbatim>\<open>Time\<close> is
  January 1 of year 1, 00:00:00 UTC, which is 62135596800 seconds before the epoch.
  Instants are unbounded integers: the range of \<^verbatim>\<open>time.Time\<close>, of some hundred
  billion years, is not modelled.
\<close>

type_synonym time = int
type_synonym duration = int

definition zeroTime :: time where
  "zeroTime = - 62135596800 * 1000000000"

definition IsZero :: "time \<Rightarrow> bool" where
  "IsZero t \<longleftrightarrow> t = zeroTime"

definition Before :: "time \<Rightarrow> time \<Rightarrow> bool" where
  "Before t u \<longleftrightarrow> t < u"

definition After :: "time \<Rightarrow> time \<Rightarrow> bool" where
  "After t u \<longleftrightarrow> t > u"

definition Add :: "time \<Rightarrow> duration \<Rightarrow> time" where
  "Add t d = t + d"

definition second :: duration where
  "second = 1000000000"

record SIWSMessage =
  msg_Domain :: string
  msg_Address :: string
  msg_Statement :: string
  msg_URI :: string
  msg_Version :: string
  msg_ChainID :: string
  msg_Nonce :: string
  msg_IssuedAt :: time
  msg_NotBefore :: time
  msg_ExpirationTime :: time
  msg_Resources :: "string list"

record SIWSVerificationParams =
  ExpectedDomain :: string
  CheckTime :: bool
  TimeDuration :: duration

datatype siws_error =
    ErrEmptyRawMessage
  | ErrEmptySignature
  | ErrNilMessage
  | ErrMissingDomain
  | ErrInvalidDomainFormat
  | ErrDomainMismatch
  | ErrInvalidPubKeySize
  | ErrInvalidVersion
  | ErrInvalidChainID
  | ErrNonceTooShort
  | ErrInvalidURI
  | ErrInvalidResourceURI
  | ErrSignatureVerification
  | ErrFutureMessage
  | ErrMessageExpired
  | ErrNotYetValid

text \<open>
  The helpers of package \<^verbatim>\<open>siws\<close> and the libraries \<open>VerifySIWS\<close> calls are parameters:
  the three predicates of package \<^verbatim>\<open>siws\<close>, \<^verbatim>\<open>siws.ConstructMessage\<close>,
  \<^verbatim>\<open>base58.Decode\<close>, \<open>url_Parse s\<close> (true when \<^verbatim>\<open>url.Parse(s)\<close> returns no error) and
  \<open>ed25519_Verify publicKey message sig\<close>.
\<close>

record siws_lib =
  IsValidDomain :: "string \<Rightarrow> bool"
  IsBase58PubKey :: "bytes \<Rightarrow> bool"
  IsValidSolanaNetwork :: "string \<Rightarrow> bool"
  ConstructMessage :: "SIWSMessage \<Rightarrow> string"
  base58_Decode :: "string \<Rightarrow> bytes"
  url_Parse :: "string \<Rightarrow> bool"
  ed25519_Verify :: "bytes \<Rightarrow> bytes \<Rightarrow> bytes \<Rightarrow> bool"

text \<open>The loop over \<^verbatim>\<open>msg.Resources\<close>.\<close>

fun check_resources :: "siws_lib \<Rightarrow> string list \<Rightarrow> siws_error option" where
  "check_resources lib [] = None"
| "check_resources lib (resource # rest) =
     (if \<not> url_Parse lib resource then Some ErrInvalidResourceURI
      else check_resources lib rest)"

text \<open>
  \<open>now\<close> is the reading of \<^verbatim>\<open>time.Now().UTC()\<close>; the message pointer is an optional
  value; the result is the error, \<open>None\<close> for \<^verbatim>\<open>nil\<close>.
\<close>

definition VerifySIWS ::
  "siws_lib \<Rightarrow> time \<Rightarrow> string \<Rightarrow> bytes \<Rightarrow> SIWSMessage option \<Rightarrow> SIWSVerificationParams
     \<Rightarrow> siws_error option" where
  "VerifySIWS lib now rawMessage signature msg params =
     (if rawMessage = [] then Some ErrEmptyRawMessage
      else if length signature = 0 then Some ErrEmptySignature
      else case msg of
        None \<Rightarrow> Some ErrNilMessage
      | Some m \<Rightarrow>
          if ExpectedDomain params = [] then Some ErrMissingDomain
          else if \<not> IsValidDomain lib (msg_Domain m) then Some ErrInvalidDomainFormat
          else if msg_Domain m \<noteq> ExpectedDomain params then Some ErrDomainMismatch
          else
            let pubKey = base58_Decode lib (msg_Address m) in
            if \<not> IsBase58PubKey lib pubKey then Some ErrInvalidPubKeySize
            else if msg_Version m \<noteq> ''1'' then Some ErrInvalidVersion
            else if msg_ChainID m \<noteq> [] \<and> \<not> IsValidSolanaNetwork lib (msg_ChainID m)
              then Some ErrInvalidChainID
            else if msg_Nonce m \<noteq> [] \<and> length (msg_Nonce m) < 8 then Some ErrNonceTooShort
            else if msg_URI m \<noteq> [] \<and> \<not> url_Parse lib (msg_URI m) then Some ErrInvalidURI
            else
              (case check_resources lib (msg_Resources m) of
                 Some err \<Rightarrow> Some err
               | None \<Rightarrow>
                   if \<not> ed25519_Verify lib pubKey (bytes_of_string rawMessage) signature
                     then Some ErrSignatureVerification
                   else if \<not> IsZero (msg_IssuedAt m) \<and> Before now (msg_IssuedAt m)
                     then Some ErrFutureMessage
                   else if \<not> IsZero (msg_IssuedAt m) \<and> CheckTime params \<and>
                           TimeDuration params > 0 \<and>
                           After now (Add (msg_IssuedAt m) (TimeDuration params))
                     then Some ErrMessageExpired
                   else if \<not> IsZero (msg_NotBefore m) \<and> Before now (msg_NotBefore m)
                     then Some ErrNotYetValid
                   else if \<not> IsZero (msg_ExpirationTime m) \<and> After now (msg_ExpirationTime m)
                     then Some ErrMessageExpired
                   else None))"

text \<open>
  The checks that come before a stage of \<open>VerifySIWS\<close>, as conditions on its inputs:
  the checks 1 to 6 before the URI validation, and the checks 1 to 8 before the time
  validation.
\<close>

definition reaches_uri_validation ::
  "siws_lib \<Rightarrow> string \<Rightarrow> bytes \<Rightarrow> SIWSMessage \<Rightarrow> SIWSVerificationParams \<Rightarrow> bool" where
  "reaches_uri_validation lib rawMessage signature m params \<longleftrightarrow>
     rawMessage \<noteq> [] \<and> signature \<noteq> [] \<and>
     ExpectedDomain params \<noteq> [] \<and> IsValidDomain lib (msg_Domain m) \<and>
     msg_Domain m = ExpectedDomain params \<and>
     IsBase58PubKey lib (base58_Decode lib (msg_Address m)) \<and>
     msg_Version m = ''1'' \<and>
     (msg_ChainID m = [] \<or> IsValidSolanaNetwork lib (msg_ChainID m)) \<and>
     (msg_Nonce m = [] \<or> 8 \<le> length (msg_Nonce m))"

definition reaches_time_validation ::
  "siws_lib \<Rightarrow> string \<Rightarrow> bytes \<Rightarrow> SIWSMessage \<Rightarrow> SIWSVerificationParams \<Rightarrow> bool" where
  "reaches_time_validation lib rawMessage signature m params \<longleftrightarrow>
     reaches_uri_validation lib rawMessage signature m params \<and>
     (msg_URI m = [] \<or> url_Parse lib (msg_URI m)) \<and>
     list_all (url_Parse lib) (msg_Resources m) \<and>
     ed25519_Verify lib (base58_Decode lib (msg_Address m)) (bytes_of_string rawMessage) signature"

text \<open>
  \<^verbatim>\<open>url.Parse\<close> starts by rejecting a string that holds an ASCII control character
  (a byte below \<open>0x20\<close>, or \<open>0x7f\<close>).
\<close>

definition is_CTL :: "char \<Rightarrow> bool" where
  "is_CTL c \<longleftrightarrow> (of_char c :: nat) < 32 \<or> (of_char c :: nat) = 127"

definition url_rejects_control :: "siws_lib \<Rightarrow> bool" where
  "url_rejects_control lib \<longleftrightarrow> (\<forall>s. list_ex is_CTL s \<longrightarrow> \<not> url_Parse lib s)"

section \<open>Package provider: the Web3 provider\<close>

text \<open>
  \<^verbatim>\<open>t.Format(time.RFC3339)\<close> of a UTC time: the civil date of the proleptic Gregorian
  calendar and the time of day, to the second, followed by \<open>Z\<close>.
\<close>

definition pad_nat :: "nat \<Rightarrow> nat \<Rightarrow> string" where
  "pad_nat width n = replicate (width - length (show_nat n)) CHR ''0'' @ show_nat n"

definition civil_from_days :: "int \<Rightarrow> int \<times> int \<times> int" where
  "civil_from_days days =
     (let z = days + 719468;
          era = z div 146097;
          doe = z mod 146097;
          yoe = (doe - doe div 1460 + doe div 36524 - doe div 146096) div 365;
          doy = doe - (365 * yoe + yoe div 4 - yoe div 100);
          mp = (5 * doy + 2) div 153;
          d = doy - (153 * mp + 2) div 5 + 1;
          m = (if mp < 10 then mp + 3 else mp - 9);
          y = yoe + era * 400 + (if m \<le> 2 then 1 else 0)
      in (y, m, d))"

definition Format_RFC3339 :: "time \<Rightarrow> string" where
  "Format_RFC3339 t =
     (let secs = t div 1000000000;
          (y, m, d) = civil_from_days (secs div 86400);
          sod = secs mod 86400
      in (if y < 0 then CHR ''-'' # pad_nat 4 (nat (- y)) else pad_nat 4 (nat y)) @ ''-'' @
         pad_nat 2 (nat m) @ ''-'' @ pad_nat 2 (nat d) @ ''T'' @
         pad_nat 2 (nat (sod div 3600)) @ '':'' @ pad_nat 2 (nat (sod mod 3600 div 60)) @ '':'' @
         pad_nat 2 (nat (sod mod 60)) @ ''Z'')"

text \<open>\<^verbatim>\<open>t.UnixNano()\<close>: the nanoseconds since the epoch as an \<^verbatim>\<open>int64\<close>.\<close>

definition UnixNano :: "time \<Rightarrow> int" where
  "UnixNano t = sint (word_of_int t :: 64 word)"

definition BlockchainEthereum :: string where
  "BlockchainEthereum = ''ethereum''"

definition BlockchainSolana :: string where
  "BlockchainSolana = ''solana''"

record BlockchainConfig =
  NetworkName :: string
  ChainID :: string

text \<open>
  The fields of \<^verbatim>\<open>conf.Web3Configuration\<close> the provider reads. Whatever else
  \<^verbatim>\<open>ParseSupportedChains\<close> reads of the configuration is one more field,
  \<open>SupportedChains\<close>, of a type left open.
\<close>

record 'raw Web3Configuration =
  Enabled :: bool
  Domain :: string
  Statement :: string
  Version :: string
  Timeout :: duration
  DefaultChain :: string
  SupportedChains :: 'raw

record 'raw Web3Provider =
  config :: "'raw Web3Configuration"
  chains :: "string \<rightharpoonup> BlockchainConfig"
  defaultChain :: string

datatype provider_error =
    NotEnabled
  | ParseChainsError string
  | DefaultChainNotSupported string
  | UnsupportedChain string
  | NotImplementedFor string
  | TokenPanic

text \<open>
  \<open>parse\<close> is \<^verbatim>\<open>config.ParseSupportedChains\<close>, of package \<^verbatim>\<open>conf\<close>: the chain table,
  or its error. The context argument is not used.
\<close>

definition NewWeb3Provider ::
  "('raw Web3Configuration \<Rightarrow> string + (string \<rightharpoonup> BlockchainConfig)) \<Rightarrow> 'raw Web3Configuration
     \<Rightarrow> provider_error + 'raw Web3Provider" where
  "NewWeb3Provider parse cfg =
     (if \<not> Enabled cfg then Inl NotEnabled
      else
        (case parse cfg of
           Inl err \<Rightarrow> Inl (ParseChainsError err)
         | Inr chs \<Rightarrow>
             if DefaultChain cfg \<noteq> [] \<and> chs (DefaultChain cfg) = None
             then Inl (DefaultChainNotSupported (DefaultChain cfg))
             else Inr \<lparr>config = cfg, chains = chs, defaultChain = DefaultChain cfg\<rparr>))"

text \<open>
  \<^verbatim>\<open>SecureToken\<close>: 16 bytes read from \<^verbatim>\<open>rand.Reader\<close> (\<open>rand\<close> is what the reader
  delivers), in unpadded URL-safe base64; \<open>None\<close> is the panic of \<^verbatim>\<open>must\<close>.
\<close>

definition SecureToken :: "bytes \<Rightarrow> string option" where
  "SecureToken rand = map_option EncodeToString (ReadFull 16 rand)"

definition ethereum_message ::
  "string \<Rightarrow> string \<Rightarrow> string \<Rightarrow> string \<Rightarrow> string \<Rightarrow> string \<Rightarrow> int \<Rightarrow> string \<Rightarrow> string \<Rightarrow> string" where
  "ethereum_message domain network address uri version chainID nonce issuedAt expirationTime =
     domain @ '' wants you to sign in with your '' @ network @ '' account:'' @ [CHR 0x0A] @
     address @ [CHR 0x0A] @
     [CHR 0x0A] @
     ''URI: '' @ uri @ [CHR 0x0A] @
     ''Version: '' @ version @ [CHR 0x0A] @
     ''Chain ID: '' @ chainID @ [CHR 0x0A] @
     ''Nonce: '' @ show_int nonce @ [CHR 0x0A] @
     ''Issued At: '' @ issuedAt @ [CHR 0x0A] @
     ''Expiration Time: '' @ expirationTime"

text \<open>\<open>now\<close> is the reading of \<^verbatim>\<open>time.Now().UTC()\<close>.\<close>

definition GenerateSignMessage ::
  "siws_lib \<Rightarrow> 'raw Web3Provider \<Rightarrow> bytes \<Rightarrow> time \<Rightarrow> string \<Rightarrow> string \<Rightarrow> string
     \<Rightarrow> provider_error + string" where
  "GenerateSignMessage lib p rand now address chain uri =
     (let chain = (if chain = [] then defaultChain p else chain) in
      case chains p chain of
        None \<Rightarrow> Inl (UnsupportedChain chain)
      | Some chainCfg \<Rightarrow>
          (case SecureToken rand of
             None \<Rightarrow> Inl TokenPanic
           | Some nonce \<Rightarrow>
               if NetworkName chainCfg = BlockchainSolana then
                 Inr (ConstructMessage lib
                   \<lparr>msg_Domain = Domain (config p), msg_Address = address,
                    msg_Statement = Statement (config p), msg_URI = uri,
                    msg_Version = Version (config p), msg_ChainID = [],
                    msg_Nonce = nonce, msg_IssuedAt = now, msg_NotBefore = zeroTime,
                    msg_ExpirationTime = zeroTime, msg_Resources = []\<rparr>)
               else if NetworkName chainCfg = BlockchainEthereum then
                 Inr (ethereum_message (Domain (config p)) (NetworkName chainCfg) address uri
                        (Version (config p)) (ChainID chainCfg) (UnixNano now)
                        (Format_RFC3339 now) (Format_RFC3339 (Add now (Timeout (config p)))))
               else Inl (NotImplementedFor (NetworkName chainCfg))))"

section \<open>An instance of the library parameters\<close>

text \<open>
  The theorems below hold for every library that meets the contracts they name. To
  evaluate the model on concrete inputs, the parameters are instantiated with small
  functions that meet these contracts. They stand for the libraries only as far as the
  contracts go: the cipher is not AES-GCM, the derivation is not HKDF.
\<close>

definition demo_Seal :: "bytes \<Rightarrow> bytes \<Rightarrow> bytes \<Rightarrow> bytes" where
  "demo_Seal key nonce plaintext =
     map (\<lambda>b. b + sum_list (key @ nonce)) plaintext @
     replicate 16 (sum_list plaintext + sum_list (key @ nonce))"

definition demo_Open :: "bytes \<Rightarrow> bytes \<Rightarrow> bytes \<Rightarrow> bytes option" where
  "demo_Open key nonce ciphertext =
     (if length ciphertext < 16 then None
      else
        let plaintext = map (\<lambda>b. b - sum_list (key @ nonce))
                          (take (length ciphertext - 16) ciphertext)
        in if drop (length ciphertext - 16) ciphertext =
              replicate 16 (sum_list plaintext + sum_list (key @ nonce))
           then Some plaintext else None)"

definition demo_envelope :: EncryptedString where
  "demo_envelope = \<lparr>KeyID = ''k1'', Algorithm = ''aes-gcm-hkdf'', Data = [1, 2, 3], Nonce = [7]\<rparr>"

definition demo_Unmarshal :: "string \<Rightarrow> EncryptedString option" where
  "demo_Unmarshal s =
     (if s = ''{k1}'' then Some demo_envelope
      else if s = ''{}'' then Some \<lparr>KeyID = [], Algorithm = [], Data = [], Nonce = []\<rparr>
      else if s = ''[k1]'' then Some demo_envelope
      else None)"

definition demo_crypto :: crypto_lib where
  "demo_crypto =
     \<lparr>hkdf_New = (\<lambda>secret salt info. replicate 32 (sum_list (secret @ salt @ info))),
      gcm_Seal = demo_Seal, gcm_Open = demo_Open, json_Unmarshal = demo_Unmarshal\<rparr>"

definition demo_key :: string where
  "demo_key = ''AAECAwQFBgcICQoLDA0ODxAREhMUFRYXGBkaGxwdHh8''"

definition demo_eth :: eth_lib where
  "demo_eth =
     \<lparr>Keccak256Hash = (\<lambda>m. [sum_list m]),
      SigToPub = (\<lambda>hash sig. if sig ! 64 < 4
                               then Some (uint (sum_list hash), uint (sig ! 0)) else None),
      PubkeyToAddress = (\<lambda>(x, y). replicate 20 (of_int y)),
      HexToAddress = (\<lambda>s. case hex_DecodeString s of Some b \<Rightarrow> b | None \<Rightarrow> [])\<rparr>"

definition demo_siws :: siws_lib where
  "demo_siws =
     \<lparr>IsValidDomain = (\<lambda>d. d \<noteq> [] \<and> \<not> list_ex (\<lambda>c. c = CHR '' '') d),
      IsBase58PubKey = (\<lambda>k. length k = 32),
      IsValidSolanaNetwork = (\<lambda>c. c = ''mainnet'' \<or> c = ''testnet'' \<or> c = ''devnet''),
      ConstructMessage = (\<lambda>m. msg_Domain m @ '' wants you to sign in with your Solana account:''
                                 @ [CHR 0x0A] @ msg_Address m @ [CHR 0x0A] @ ''Nonce: '' @ msg_Nonce m),
      base58_Decode = bytes_of_string,
      url_Parse = (\<lambda>s. \<not> list_ex is_CTL s),
      ed25519_Verify = (\<lambda>publicKey message sig. sig = [sum_list publicKey + sum_list message])\<rparr>"

definition demo_message :: SIWSMessage where
  "demo_message =
     \<lparr>msg_Domain = ''example.com'', msg_Address = ''11111111111111111111111111111111'',
      msg_Statement = ''Sign in'', msg_URI = ''https://example.com/login'', msg_Version = ''1'',
      msg_ChainID = [], msg_Nonce = ''abcdefgh'', msg_IssuedAt = 1700000000000000000,
      msg_NotBefore = zeroTime, msg_ExpirationTime = zeroTime,
      msg_Resources = [''https://example.com/a'']\<rparr>"

definition demo_params :: SIWSVerificationParams where
  "demo_params = \<lparr>ExpectedDomain = ''example.com'', CheckTime = True, TimeDuration = 600 * second\<rparr>"

definition demo_signature :: bytes where
  "demo_signature =
     [sum_list (bytes_of_string (msg_Address demo_message)) + sum_list (bytes_of_string ''signed text'')]"

definition demo_chains :: "string \<rightharpoonup> BlockchainConfig" where
  "demo_chains =
     [''ethereum-mainnet'' \<mapsto> \<lparr>NetworkName = ''ethereum'', ChainID = ''1''\<rparr>,
      ''solana-mainnet'' \<mapsto> \<lparr>NetworkName = ''solana'', ChainID = ''mainnet''\<rparr>]"

definition demo_config :: "unit Web3Configuration" where
  "demo_config =
     \<lparr>Enabled = True, Domain = ''example.com'', Statement = ''Sign in'', Version = ''1'',
      Timeout = 600 * second, DefaultChain = ''ethereum-mainnet'', SupportedChains = ()\<rparr>"

definition demo_provider :: "unit Web3Provider" where
  "demo_provider = \<lparr>config = demo_config, chains = demo_chains, defaultChain = ''ethereum-mainnet''\<rparr>"

section \<open>The envelope: encryption, decryption and parsing\<close>

lemma DecodeString_Nil: "DecodeString [] = Some []"
  by (simp add: DecodeString_def)

lemma deriveSymmetricKey_Inr:
  assumes "hkdf_delivers lib" "DecodeString keyBase64URL = Some hkdfKey" "length hkdfKey = 32"
  shows "deriveSymmetricKey lib id' keyID keyBase64URL =
           Inr (take 32 (hkdf_New lib hkdfKey [] (bytes_of_string id')))"
  using assms by (simp add: deriveSymmetricKey_def ReadFull_def hkdf_delivers_def)

lemma deriveSymmetricKey_length:
  "deriveSymmetricKey lib id' keyID keyBase64URL = Inr key \<Longrightarrow> length key = 32"
  by (auto simp: deriveSymmetricKey_def ReadFull_def split: option.splits if_splits)

lemma NewEncryptedString_Inr:
  assumes "NewEncryptedString lib rand id' data keyID keyBase64URL = Inr es"
  obtains key where "deriveSymmetricKey lib id' keyID keyBase64URL = Inr key"
    and "12 \<le> length rand"
    and "es = \<lparr>KeyID = keyID, Algorithm = ''aes-gcm-hkdf'',
                Data = gcm_Seal lib key (take 12 rand) data, Nonce = take 12 rand\<rparr>"
  using assms
  by (auto simp: NewEncryptedString_def ReadFull_def split: sum.splits option.splits if_splits)

lemma demo_hkdf_delivers: "hkdf_delivers demo_crypto"
  by (simp add: hkdf_delivers_def demo_crypto_def)

lemma demo_aead_correct: "aead_correct demo_crypto"
  by (simp add: aead_correct_def demo_crypto_def demo_Seal_def demo_Open_def o_def)

lemma demo_gcm_overhead: "gcm_overhead demo_crypto"
  by (simp add: gcm_overhead_def demo_crypto_def demo_Seal_def)

lemma demo_key_decodes: "DecodeString demo_key = Some (map of_nat [0..<32])"
  by code_simp

text \<open>
  C2. For every record identifier, every payload (the empty one included), every key
  identifier and every key material that decodes, as unpadded URL-safe base64, to
  exactly 32 bytes: \<open>NewEncryptedString\<close> returns an envelope, and decrypting that
  envelope under the same record identifier, with a key table that maps the key
  identifier to the same key material, returns the payload. The library is any that
  delivers the HKDF output and whose \<^verbatim>\<open>Open\<close> inverts \<^verbatim>\<open>Seal\<close>; the random source
  delivers the 12 bytes of the nonce.
\<close>

theorem encrypt_decrypt_round_trip:
  assumes "hkdf_delivers lib" and "aead_correct lib"
    and "DecodeString keyBase64URL = Some hkdfKey" and "length hkdfKey = 32"
    and "12 \<le> length rand"
    and "decryptionKeys keyID = Some keyBase64URL"
  shows "\<exists>es. NewEncryptedString lib rand id' data keyID keyBase64URL = Inr es \<and>
              Decrypt lib es id' decryptionKeys = Inr data"
proof -
  let ?key = "take 32 (hkdf_New lib hkdfKey [] (bytes_of_string id'))"
  let ?es = "\<lparr>KeyID = keyID, Algorithm = ''aes-gcm-hkdf'',
               Data = gcm_Seal lib ?key (take 12 rand) data, Nonce = take 12 rand\<rparr>"
  have derive: "deriveSymmetricKey lib id' keyID keyBase64URL = Inr ?key"
    using assms(1,3,4) by (rule deriveSymmetricKey_Inr)
  have len: "length ?key = 32"
    using derive by (rule deriveSymmetricKey_length)
  have new: "NewEncryptedString lib rand id' data keyID keyBase64URL = Inr ?es"
    using derive len assms(5) by (simp add: NewEncryptedString_def ReadFull_def aes_key_ok_def)
  have nonempty: "keyBase64URL \<noteq> []"
    using assms(3,4) DecodeString_Nil by auto
  have "gcm_Open lib ?key (take 12 rand) (gcm_Seal lib ?key (take 12 rand) data) = Some data"
    using assms(2,5) len by (simp add: aead_correct_def)
  then have "Decrypt lib ?es id' decryptionKeys = Inr data"
    using derive len nonempty assms(6) by (simp add: Decrypt_def aes_key_ok_def)
  with new show ?thesis by blast
qed

theorem encrypt_decrypt_round_trip_witness:
  "(\<exists>es. NewEncryptedString demo_crypto (replicate 12 9) ''rec'' [1, 2, 3] ''k1'' demo_key = Inr es \<and>
         Decrypt demo_crypto es ''rec'' [''k1'' \<mapsto> demo_key] = Inr [1, 2, 3]) \<and>
   (\<exists>es. NewEncryptedString demo_crypto (replicate 12 9) ''rec'' [] ''k1'' demo_key = Inr es \<and>
         Decrypt demo_crypto es ''rec'' [''k1'' \<mapsto> demo_key] = Inr [])"
  using encrypt_decrypt_round_trip [OF demo_hkdf_delivers demo_aead_correct demo_key_decodes,
      of "replicate 12 9" "[''k1'' \<mapsto> demo_key]" "''k1''" "''rec''" "[1, 2, 3]"]
    encrypt_decrypt_round_trip [OF demo_hkdf_delivers demo_aead_correct demo_key_decodes,
      of "replicate 12 9" "[''k1'' \<mapsto> demo_key]" "''k1''" "''rec''" "[]"]
  by simp

text \<open>
  Decrypting under another record identifier. The envelope made under the identifier
  \<open>idA\<close> is opened under the key derived for \<open>idB\<close>, and the result of \<open>Decrypt\<close> is
  what \<^verbatim>\<open>Open\<close> returns there: the plaintext it yields, or the authentication failure.
  That \<^verbatim>\<open>Open\<close> fails for every \<open>idB\<close> other than \<open>idA\<close> is a property of
  HKDF-SHA256 and AES-GCM that holds up to a negligible probability, not for every
  input: record identifiers are unbounded and keys have 256 bits, tags 128. It is not
  a statement about these functions as functions.
\<close>

lemma Decrypt_under_other_record:
  assumes "hkdf_delivers lib"
    and "DecodeString keyBase64URL = Some hkdfKey" and "length hkdfKey = 32"
    and "decryptionKeys keyID = Some keyBase64URL"
    and "NewEncryptedString lib rand idA data keyID keyBase64URL = Inr es"
  shows "Decrypt lib es idB decryptionKeys =
          (case gcm_Open lib (take 32 (hkdf_New lib hkdfKey [] (bytes_of_string idB)))
                  (take 12 rand)
                  (gcm_Seal lib (take 32 (hkdf_New lib hkdfKey [] (bytes_of_string idA)))
                     (take 12 rand) data) of
             None \<Rightarrow> Inl MessageAuthenticationFailed
           | Some decrypted \<Rightarrow> Inr decrypted)"
proof -
  have deriveA: "deriveSymmetricKey lib idA keyID keyBase64URL =
      Inr (take 32 (hkdf_New lib hkdfKey [] (bytes_of_string idA)))"
    using assms(1,2,3) by (rule deriveSymmetricKey_Inr)
  have deriveB: "deriveSymmetricKey lib idB keyID keyBase64URL =
      Inr (take 32 (hkdf_New lib hkdfKey [] (bytes_of_string idB)))"
    using assms(1,2,3) by (rule deriveSymmetricKey_Inr)
  have lenB: "length (take 32 (hkdf_New lib hkdfKey [] (bytes_of_string idB))) = 32"
    using deriveB by (rule deriveSymmetricKey_length)
  from assms(5) deriveA have es:
    "es = \<lparr>KeyID = keyID, Algorithm = ''aes-gcm-hkdf'',
           Data = gcm_Seal lib (take 32 (hkdf_New lib hkdfKey [] (bytes_of_string idA)))
                    (take 12 rand) data,
           Nonce = take 12 rand\<rparr>"
    by (auto elim: NewEncryptedString_Inr)
  have nonempty: "keyBase64URL \<noteq> []"
    using assms(2,3) DecodeString_Nil by auto
  show ?thesis
    using es deriveB lenB nonempty assms(4)
    by (simp add: Decrypt_def aes_key_ok_def split: option.split)
qed

text \<open>
  C7. \<open>ParseEncryptedString\<close> returns nothing for an input that does not start with
  \<open>{\<close>, for an input that \<^verbatim>\<open>json.Unmarshal\<close> rejects, and for an input that unmarshals to
  an envelope failing \<open>IsValid\<close>; it returns an envelope exactly when the input starts
  with \<open>{\<close>, unmarshals to that envelope, and the envelope has a non-empty key
  identifier, non-empty data, a non-empty nonce and the algorithm \<open>aes-gcm-hkdf\<close>. The
  result is an optional value: the function has no error result.
\<close>

theorem ParseEncryptedString_absent_or_valid:
  "(\<not> HasPrefix str ''{'' \<longrightarrow> ParseEncryptedString lib str = None) \<and>
   (json_Unmarshal lib str = None \<longrightarrow> ParseEncryptedString lib str = None) \<and>
   (\<forall>es. json_Unmarshal lib str = Some es \<and> \<not> IsValid es \<longrightarrow>
         ParseEncryptedString lib str = None) \<and>
   (\<forall>es. ParseEncryptedString lib str = Some es \<longleftrightarrow>
         HasPrefix str ''{'' \<and> json_Unmarshal lib str = Some es \<and>
         KeyID es \<noteq> [] \<and> Data es \<noteq> [] \<and> Nonce es \<noteq> [] \<and>
         Algorithm es = ''aes-gcm-hkdf'')"
  by (auto simp: ParseEncryptedString_def IsValid_def split: option.splits)

theorem ParseEncryptedString_absent_or_valid_witness:
  "ParseEncryptedString demo_crypto ''[k1]'' = None \<and>
   ParseEncryptedString demo_crypto ''{x'' = None \<and>
   ParseEncryptedString demo_crypto ''{}'' = None \<and>
   ParseEncryptedString demo_crypto ''{k1}'' = Some demo_envelope"
  using ParseEncryptedString_absent_or_valid [of "''[k1]''" demo_crypto]
    ParseEncryptedString_absent_or_valid [of "''{x''" demo_crypto]
    ParseEncryptedString_absent_or_valid [of "''{}''" demo_crypto]
    ParseEncryptedString_absent_or_valid [of "''{k1}''" demo_crypto]
  by (simp add: HasPrefix_def demo_crypto_def demo_Unmarshal_def demo_envelope_def IsValid_def)

lemma demo_new_empty_key:
  "NewEncryptedString demo_crypto (replicate 12 9) ''rec'' [] [] demo_key =
     Inr \<lparr>KeyID = [], Algorithm = ''aes-gcm-hkdf'', Data = replicate 16 172,
          Nonce = replicate 12 9\<rparr>"
  by code_simp

lemma demo_new_k1:
  "NewEncryptedString demo_crypto (replicate 12 9) ''rec'' [] ''k1'' demo_key =
     Inr \<lparr>KeyID = ''k1'', Algorithm = ''aes-gcm-hkdf'', Data = replicate 16 172,
          Nonce = replicate 12 9\<rparr>"
  by code_simp

text \<open>
  C9, as amended. Every envelope returned by \<open>NewEncryptedString\<close> carries the supplied
  key identifier, the algorithm \<open>aes-gcm-hkdf\<close>, a nonce of exactly 12 bytes and data of
  the plaintext's length plus the 16-byte tag, hence non-empty also for an empty
  plaintext. It satisfies \<open>IsValid\<close> exactly when the supplied key identifier is
  non-empty; in that case \<open>ParseEncryptedString\<close> returns it for every input that
  starts with \<open>{\<close> and unmarshals to it.
\<close>

theorem envelope_of_NewEncryptedString:
  assumes "gcm_overhead lib"
    and "NewEncryptedString lib rand id' data keyID keyBase64URL = Inr es"
  shows "KeyID es = keyID \<and> Algorithm es = ''aes-gcm-hkdf'' \<and> length (Nonce es) = 12 \<and>
         length (Data es) = length data + 16 \<and> Data es \<noteq> [] \<and>
         (IsValid es \<longleftrightarrow> keyID \<noteq> []) \<and>
         (\<forall>str. keyID \<noteq> [] \<and> HasPrefix str ''{'' \<and> json_Unmarshal lib str = Some es \<longrightarrow>
                ParseEncryptedString lib str = Some es)"
proof -
  from assms(2) obtain key where
    es: "es = \<lparr>KeyID = keyID, Algorithm = ''aes-gcm-hkdf'',
               Data = gcm_Seal lib key (take 12 rand) data, Nonce = take 12 rand\<rparr>"
    and rand: "12 \<le> length rand"
    by (rule NewEncryptedString_Inr)
  have len: "length (Data es) = length data + 16"
    using assms(1) es by (simp add: gcm_overhead_def)
  then have ne: "Data es \<noteq> []" by auto
  have valid: "IsValid es \<longleftrightarrow> keyID \<noteq> []"
    using es rand len by (simp add: IsValid_def)
  show ?thesis
    using es rand len ne valid by (simp add: ParseEncryptedString_def)
qed

theorem envelope_of_NewEncryptedString_witness:
  "IsValid \<lparr>KeyID = ''k1'', Algorithm = ''aes-gcm-hkdf'', Data = replicate 16 172,
          Nonce = replicate 12 9\<rparr> \<and>
   length (replicate 16 (172 :: byte)) = length ([] :: bytes) + 16"
  using envelope_of_NewEncryptedString [OF demo_gcm_overhead demo_new_k1]
  by simp

text \<open>
  C9 as stated fails for the empty key identifier: \<open>NewEncryptedString\<close> returns an
  envelope whose key identifier is empty, and \<open>IsValid\<close> rejects it.
\<close>

theorem envelope_empty_keyID_counterexample:
  "NewEncryptedString demo_crypto (replicate 12 9) ''rec'' [] [] demo_key =
     Inr \<lparr>KeyID = [], Algorithm = ''aes-gcm-hkdf'', Data = replicate 16 172,
          Nonce = replicate 12 9\<rparr> \<and>
   \<not> IsValid \<lparr>KeyID = [], Algorithm = ''aes-gcm-hkdf'', Data = replicate 16 172,
          Nonce = replicate 12 9\<rparr>"
  using demo_new_empty_key by (simp add: IsValid_def)

section \<open>Sign-In-With-Solana verification\<close>

lemma check_resources_None: "check_resources lib rs = None \<longleftrightarrow> list_all (url_Parse lib) rs"
  by (induction rs) auto

lemma check_resources_Some:
  "check_resources lib rs = Some err \<longleftrightarrow> err = ErrInvalidResourceURI \<and> (\<exists>r\<in>set rs. \<not> url_Parse lib r)"
  by (induction rs) auto

lemma VerifySIWS_at_uri_validation:
  assumes "reaches_uri_validation lib rawMessage signature m params"
  shows "VerifySIWS lib now rawMessage signature (Some m) params =
          (if msg_URI m \<noteq> [] \<and> \<not> url_Parse lib (msg_URI m) then Some ErrInvalidURI
           else if \<exists>r\<in>set (msg_Resources m). \<not> url_Parse lib r then Some ErrInvalidResourceURI
           else if \<not> ed25519_Verify lib (base58_Decode lib (msg_Address m))
                       (bytes_of_string rawMessage) signature
             then Some ErrSignatureVerification
           else if \<not> IsZero (msg_IssuedAt m) \<and> now < msg_IssuedAt m then Some ErrFutureMessage
           else if \<not> IsZero (msg_IssuedAt m) \<and> CheckTime params \<and> 0 < TimeDuration params \<and>
                   msg_IssuedAt m + TimeDuration params < now
             then Some ErrMessageExpired
           else if \<not> IsZero (msg_NotBefore m) \<and> now < msg_NotBefore m then Some ErrNotYetValid
           else if \<not> IsZero (msg_ExpirationTime m) \<and> msg_ExpirationTime m < now
             then Some ErrMessageExpired
           else None)"
proof -
  from assms have basic: "rawMessage \<noteq> []" "signature \<noteq> []" "ExpectedDomain params \<noteq> []"
    and dom: "IsValidDomain lib (msg_Domain m)" "IsValidDomain lib (ExpectedDomain params)"
      "msg_Domain m = ExpectedDomain params"
    and key: "IsBase58PubKey lib (base58_Decode lib (msg_Address m))"
    and ver: "msg_Version m = ''1''"
    and chain: "msg_ChainID m = [] \<or> IsValidSolanaNetwork lib (msg_ChainID m)"
    and nonce: "msg_Nonce m = [] \<or> 8 \<le> length (msg_Nonce m)"
    by (auto simp: reaches_uri_validation_def)
  have g5: "\<not> (msg_ChainID m \<noteq> [] \<and> \<not> IsValidSolanaNetwork lib (msg_ChainID m))"
    using chain by blast
  have g6: "\<not> (msg_Nonce m \<noteq> [] \<and> length (msg_Nonce m) < 8)"
    using nonce by auto
  have head: "VerifySIWS lib now rawMessage signature (Some m) params =
     (if msg_URI m \<noteq> [] \<and> \<not> url_Parse lib (msg_URI m) then Some ErrInvalidURI
      else case check_resources lib (msg_Resources m) of
              Some err \<Rightarrow> Some err
            | None \<Rightarrow>
                if \<not> ed25519_Verify lib (base58_Decode lib (msg_Address m)) (bytes_of_string rawMessage) signature
                  then Some ErrSignatureVerification
                else if \<not> IsZero (msg_IssuedAt m) \<and> Before now (msg_IssuedAt m)
                  then Some ErrFutureMessage
                else if \<not> IsZero (msg_IssuedAt m) \<and> CheckTime params \<and> TimeDuration params > 0
                        \<and> After now (Add (msg_IssuedAt m) (TimeDuration params))
                  then Some ErrMessageExpired
                else if \<not> IsZero (msg_NotBefore m) \<and> Before now (msg_NotBefore m)
                  then Some ErrNotYetValid
                else if \<not> IsZero (msg_ExpirationTime m) \<and> After now (msg_ExpirationTime m)
                  then Some ErrMessageExpired
                else None)"
    unfolding VerifySIWS_def Let_def
    by (simp only: basic dom key ver g5 g6 if_False if_True not_True_eq_False not_False_eq_True
        option.case list.size length_0_conv refl)
  show ?thesis
  proof (cases "check_resources lib (msg_Resources m)")
    case None
    then have "\<not> (\<exists>r\<in>set (msg_Resources m). \<not> url_Parse lib r)"
      by (simp add: check_resources_None list_all_iff)
    with None show ?thesis
      unfolding head by (simp add: Before_def After_def Add_def)
  next
    case (Some err)
    then have "err = ErrInvalidResourceURI" "\<exists>r\<in>set (msg_Resources m). \<not> url_Parse lib r"
      by (simp_all add: check_resources_Some)
    with Some show ?thesis
      unfolding head by simp
  qed
qed

lemma VerifySIWS_at_time_validation:
  assumes "reaches_time_validation lib rawMessage signature m params"
  shows "VerifySIWS lib now rawMessage signature (Some m) params =
          (if \<not> IsZero (msg_IssuedAt m) \<and> now < msg_IssuedAt m then Some ErrFutureMessage
           else if \<not> IsZero (msg_IssuedAt m) \<and> CheckTime params \<and> 0 < TimeDuration params \<and>
                   msg_IssuedAt m + TimeDuration params < now
             then Some ErrMessageExpired
           else if \<not> IsZero (msg_NotBefore m) \<and> now < msg_NotBefore m then Some ErrNotYetValid
           else if \<not> IsZero (msg_ExpirationTime m) \<and> msg_ExpirationTime m < now
             then Some ErrMessageExpired
           else None)"
proof -
  from assms have r: "reaches_uri_validation lib rawMessage signature m params"
    and u: "msg_URI m = [] \<or> url_Parse lib (msg_URI m)"
    and rs: "\<not> (\<exists>r\<in>set (msg_Resources m). \<not> url_Parse lib r)"
    and v: "ed25519_Verify lib (base58_Decode lib (msg_Address m)) (bytes_of_string rawMessage) signature"
    by (auto simp: reaches_time_validation_def list_all_iff)
  show ?thesis
    unfolding VerifySIWS_at_uri_validation [OF r] using u rs v by auto
qed

lemma VerifySIWS_rejects_not_before:
  assumes "\<not> IsZero (msg_NotBefore m)" "now < msg_NotBefore m"
  shows "VerifySIWS lib now rawMessage signature (Some m) params \<noteq> None"
  using assms
  by (simp add: VerifySIWS_def Let_def Before_def split: option.split)

lemma VerifySIWS_rejects_expired:
  assumes "\<not> IsZero (msg_ExpirationTime m)" "msg_ExpirationTime m < now"
  shows "VerifySIWS lib now rawMessage signature (Some m) params \<noteq> None"
  using assms
  by (simp add: VerifySIWS_def Let_def After_def split: option.split)

text \<open>
  Conversely, a result of the time validation (no error, or one of its three errors)
  is returned only for inputs that pass the checks 1 to 8.
\<close>

lemma VerifySIWS_time_result_reaches:
  "VerifySIWS lib now rawMessage signature (Some m) params \<in>
       {None, Some ErrFutureMessage, Some ErrMessageExpired, Some ErrNotYetValid} \<longrightarrow>
   reaches_time_validation lib rawMessage signature m params"
proof (cases "check_resources lib (msg_Resources m)")
  case None
  then have "list_all (url_Parse lib) (msg_Resources m)"
    by (simp add: check_resources_None)
  with None show ?thesis
    by (simp add: VerifySIWS_def reaches_time_validation_def reaches_uri_validation_def Let_def)
next
  case (Some err)
  then have "err = ErrInvalidResourceURI" by (simp add: check_resources_Some)
  with Some show ?thesis
    by (simp add: VerifySIWS_def Let_def)
qed


lemma demo_reaches_uri: "reaches_uri_validation demo_siws ''signed text'' sig demo_message demo_params \<longleftrightarrow> sig \<noteq> []"
  by (simp add: reaches_uri_validation_def demo_siws_def demo_message_def demo_params_def
      bytes_of_string_def)

lemma demo_reaches_time:
  "reaches_time_validation demo_siws ''signed text'' demo_signature demo_message demo_params"
  by (simp add: reaches_time_validation_def demo_reaches_uri)
     (simp add: demo_siws_def demo_message_def demo_signature_def is_CTL_def bytes_of_string_def)

text \<open>
  C4, as amended. For every message that passes the checks before the time validation
  (checks 1 to 8) and whose \<open>IssuedAt\<close> is set, and every time \<open>now\<close>: \<open>VerifySIWS\<close>
  returns \<open>ErrFutureMessage\<close> when \<open>now\<close> is before \<open>IssuedAt\<close>; with \<open>CheckTime\<close> and a
  positive \<open>TimeDuration\<close> it returns \<open>ErrMessageExpired\<close> when \<open>now\<close> is after
  \<open>IssuedAt + TimeDuration\<close>, in particular when \<open>IssuedAt = now - (TimeDuration + 1s)\<close>;
  with \<open>IssuedAt = now\<close> the checks on \<open>IssuedAt\<close> pass and the result is that of the
  checks on \<open>NotBefore\<close> and \<open>ExpirationTime\<close>. Independently, and for every message,
  \<open>VerifySIWS\<close> returns an error when \<open>NotBefore\<close> is set and \<open>now\<close> is before it, and
  when \<open>ExpirationTime\<close> is set and \<open>now\<close> is after it.
\<close>

theorem VerifySIWS_time_checks:
  "(reaches_time_validation lib rawMessage signature m params \<and> \<not> IsZero (msg_IssuedAt m) \<longrightarrow>
      (now < msg_IssuedAt m \<longrightarrow>
         VerifySIWS lib now rawMessage signature (Some m) params = Some ErrFutureMessage) \<and>
      (CheckTime params \<and> 0 < TimeDuration params \<and> msg_IssuedAt m + TimeDuration params < now \<longrightarrow>
         VerifySIWS lib now rawMessage signature (Some m) params = Some ErrMessageExpired) \<and>
      (CheckTime params \<and> 0 < TimeDuration params \<and>
       msg_IssuedAt m = now - (TimeDuration params + second) \<longrightarrow>
         VerifySIWS lib now rawMessage signature (Some m) params = Some ErrMessageExpired) \<and>
      (msg_IssuedAt m = now \<longrightarrow>
         VerifySIWS lib now rawMessage signature (Some m) params =
           (if \<not> IsZero (msg_NotBefore m) \<and> now < msg_NotBefore m then Some ErrNotYetValid
            else if \<not> IsZero (msg_ExpirationTime m) \<and> msg_ExpirationTime m < now
              then Some ErrMessageExpired
            else None))) \<and>
   (\<not> IsZero (msg_NotBefore m) \<and> now < msg_NotBefore m \<longrightarrow>
      VerifySIWS lib now rawMessage signature (Some m) params \<noteq> None) \<and>
   (\<not> IsZero (msg_ExpirationTime m) \<and> msg_ExpirationTime m < now \<longrightarrow>
      VerifySIWS lib now rawMessage signature (Some m) params \<noteq> None)"
proof (intro conjI impI)
  assume a: "reaches_time_validation lib rawMessage signature m params \<and> \<not> IsZero (msg_IssuedAt m)"
  note at = VerifySIWS_at_time_validation [of lib rawMessage signature m params now]
  show "VerifySIWS lib now rawMessage signature (Some m) params = Some ErrFutureMessage"
    if "now < msg_IssuedAt m"
    using a that by (simp add: at)
  show "VerifySIWS lib now rawMessage signature (Some m) params = Some ErrMessageExpired"
    if "CheckTime params \<and> 0 < TimeDuration params \<and> msg_IssuedAt m + TimeDuration params < now"
    using a that by (simp add: at)
  show "VerifySIWS lib now rawMessage signature (Some m) params = Some ErrMessageExpired"
    if "CheckTime params \<and> 0 < TimeDuration params \<and>
        msg_IssuedAt m = now - (TimeDuration params + second)"
    using a that by (simp add: at second_def)
  show "VerifySIWS lib now rawMessage signature (Some m) params =
           (if \<not> IsZero (msg_NotBefore m) \<and> now < msg_NotBefore m then Some ErrNotYetValid
            else if \<not> IsZero (msg_ExpirationTime m) \<and> msg_ExpirationTime m < now
              then Some ErrMessageExpired
            else None)"
    if "msg_IssuedAt m = now"
    using a that by (auto simp: at)
next
  assume "\<not> IsZero (msg_NotBefore m) \<and> now < msg_NotBefore m"
  then show "VerifySIWS lib now rawMessage signature (Some m) params \<noteq> None"
    by (simp add: VerifySIWS_rejects_not_before)
next
  assume "\<not> IsZero (msg_ExpirationTime m) \<and> msg_ExpirationTime m < now"
  then show "VerifySIWS lib now rawMessage signature (Some m) params \<noteq> None"
    by (simp add: VerifySIWS_rejects_expired)
qed


lemma demo_issued_set: "\<not> IsZero (msg_IssuedAt demo_message)"
  by (simp add: IsZero_def zeroTime_def demo_message_def)

theorem VerifySIWS_time_checks_witness:
  "VerifySIWS demo_siws 1699999999999999999 ''signed text'' demo_signature (Some demo_message)
     demo_params = Some ErrFutureMessage \<and>
   VerifySIWS demo_siws 1700000601000000000 ''signed text'' demo_signature (Some demo_message)
     demo_params = Some ErrMessageExpired \<and>
   VerifySIWS demo_siws 1700000000000000000 ''signed text'' demo_signature (Some demo_message)
     demo_params = None \<and>
   VerifySIWS demo_siws 1700000000000000000 ''signed text'' demo_signature
     (Some (demo_message\<lparr>msg_NotBefore := 1700000000000000001\<rparr>)) demo_params \<noteq> None \<and>
   VerifySIWS demo_siws 1700000000000000000 ''signed text'' demo_signature
     (Some (demo_message\<lparr>msg_ExpirationTime := 1699999999999999999\<rparr>)) demo_params \<noteq> None"
  using demo_reaches_time demo_issued_set
    VerifySIWS_time_checks [of demo_siws "''signed text''" demo_signature demo_message demo_params
      1699999999999999999]
    VerifySIWS_time_checks [of demo_siws "''signed text''" demo_signature demo_message demo_params
      1700000601000000000]
    VerifySIWS_time_checks [of demo_siws "''signed text''" demo_signature demo_message demo_params
      1700000000000000000]
    VerifySIWS_time_checks [of demo_siws "''signed text''" demo_signature
      "demo_message\<lparr>msg_NotBefore := 1700000000000000001\<rparr>" demo_params 1700000000000000000]
    VerifySIWS_time_checks [of demo_siws "''signed text''" demo_signature
      "demo_message\<lparr>msg_ExpirationTime := 1699999999999999999\<rparr>" demo_params 1700000000000000000]
  by (simp add: demo_message_def demo_params_def second_def IsZero_def zeroTime_def)

text \<open>
  C4 as stated, for every message whose \<open>IssuedAt\<close> is set, fails for a message that an
  earlier check rejects: with \<open>now\<close> before \<open>IssuedAt\<close> and a signature that does not
  verify, the error is \<open>ErrSignatureVerification\<close>, not \<open>ErrFutureMessage\<close>.
\<close>

theorem VerifySIWS_future_message_counterexample:
  "\<not> IsZero (msg_IssuedAt demo_message) \<and>
   (1699999999999999999 :: time) < msg_IssuedAt demo_message \<and>
   VerifySIWS demo_siws 1699999999999999999 ''signed text'' [0] (Some demo_message) demo_params
     = Some ErrSignatureVerification"
  by (simp add: VerifySIWS_def demo_siws_def demo_message_def demo_params_def IsZero_def
      zeroTime_def is_CTL_def bytes_of_string_def Let_def)


text \<open>
  C5, as amended. When the raw message and the signature are non-empty and the message
  is present: an empty expected domain gives \<open>ErrMissingDomain\<close>; a non-empty expected
  domain and a message domain of valid syntax that differs from it gives
  \<open>ErrDomainMismatch\<close>, whatever the signature bytes, the other fields of the message,
  the other parameters and the time. The comparison is equality of strings, so a
  difference of case or a trailing character is a mismatch. For every input, empty or
  not, an empty expected domain or a message domain that differs from the expected one
  makes \<open>VerifySIWS\<close> return an error.
\<close>

theorem VerifySIWS_domain_binding:
  "(rawMessage \<noteq> [] \<and> signature \<noteq> [] \<longrightarrow>
      (ExpectedDomain params = [] \<longrightarrow>
         VerifySIWS lib now rawMessage signature (Some m) params = Some ErrMissingDomain) \<and>
      (ExpectedDomain params \<noteq> [] \<and> IsValidDomain lib (msg_Domain m) \<and>
       msg_Domain m \<noteq> ExpectedDomain params \<longrightarrow>
         VerifySIWS lib now rawMessage signature (Some m) params = Some ErrDomainMismatch)) \<and>
   (ExpectedDomain params = [] \<or> msg_Domain m \<noteq> ExpectedDomain params \<longrightarrow>
      VerifySIWS lib now rawMessage signature (Some m) params \<noteq> None)"
proof (intro conjI impI)
  assume "rawMessage \<noteq> [] \<and> signature \<noteq> []" and "ExpectedDomain params = []"
  then show "VerifySIWS lib now rawMessage signature (Some m) params = Some ErrMissingDomain"
    by (simp add: VerifySIWS_def)
next
  assume "rawMessage \<noteq> [] \<and> signature \<noteq> []"
    and "ExpectedDomain params \<noteq> [] \<and> IsValidDomain lib (msg_Domain m) \<and>
         msg_Domain m \<noteq> ExpectedDomain params"
  then show "VerifySIWS lib now rawMessage signature (Some m) params = Some ErrDomainMismatch"
    by (simp add: VerifySIWS_def)
next
  assume "ExpectedDomain params = [] \<or> msg_Domain m \<noteq> ExpectedDomain params"
  then show "VerifySIWS lib now rawMessage signature (Some m) params \<noteq> None"
    by (auto simp: VerifySIWS_def)
qed

theorem VerifySIWS_domain_binding_witness:
  "VerifySIWS demo_siws 1700000000000000000 ''signed text'' demo_signature (Some demo_message)
     (demo_params\<lparr>ExpectedDomain := ''Example.com''\<rparr>) = Some ErrDomainMismatch \<and>
   VerifySIWS demo_siws 1700000000000000000 ''signed text'' [0] (Some demo_message)
     (demo_params\<lparr>ExpectedDomain := ''example.com.''\<rparr>) = Some ErrDomainMismatch \<and>
   VerifySIWS demo_siws 1700000000000000000 ''signed text'' demo_signature (Some demo_message)
     (demo_params\<lparr>ExpectedDomain := []\<rparr>) = Some ErrMissingDomain"
  using
    VerifySIWS_domain_binding [of "''signed text''" demo_signature
      "demo_params\<lparr>ExpectedDomain := ''Example.com''\<rparr>" demo_siws 1700000000000000000 demo_message]
    VerifySIWS_domain_binding [of "''signed text''" "[0]"
      "demo_params\<lparr>ExpectedDomain := ''example.com.''\<rparr>" demo_siws 1700000000000000000 demo_message]
    VerifySIWS_domain_binding [of "''signed text''" demo_signature
      "demo_params\<lparr>ExpectedDomain := []\<rparr>" demo_siws 1700000000000000000 demo_message]
  by (simp add: demo_siws_def demo_message_def demo_params_def demo_signature_def)

text \<open>
  C5 as stated, regardless of the signature, fails for the empty signature: the domains
  differ, and the error is \<open>ErrEmptySignature\<close>, not \<open>ErrDomainMismatch\<close>.
\<close>

theorem VerifySIWS_domain_mismatch_counterexample:
  "ExpectedDomain (demo_params\<lparr>ExpectedDomain := ''example.org''\<rparr>) \<noteq> [] \<and>
   IsValidDomain demo_siws (msg_Domain demo_message) \<and>
   msg_Domain demo_message \<noteq> ExpectedDomain (demo_params\<lparr>ExpectedDomain := ''example.org''\<rparr>) \<and>
   VerifySIWS demo_siws 1700000000000000000 ''signed text'' [] (Some demo_message)
     (demo_params\<lparr>ExpectedDomain := ''example.org''\<rparr>) = Some ErrEmptySignature"
  by (simp add: VerifySIWS_def demo_siws_def demo_message_def demo_params_def)

lemma reaches_uri_validation_URI_update:
  "reaches_uri_validation lib rawMessage signature (m\<lparr>msg_URI := u\<rparr>) params \<longleftrightarrow>
   reaches_uri_validation lib rawMessage signature m params"
  by (simp add: reaches_uri_validation_def)

text \<open>
  C8, as amended. For every message that reaches the URI validation (passes the checks
  1 to 6): when the URI is present and \<^verbatim>\<open>url.Parse\<close> rejects it, \<open>VerifySIWS\<close> returns
  \<open>ErrInvalidURI\<close>; when the URI is absent or parses, and \<^verbatim>\<open>url.Parse\<close> rejects some
  entry of the resources, it returns \<open>ErrInvalidResourceURI\<close>; and a URI that
  \<^verbatim>\<open>url.Parse\<close> rejects exists: with the one-character URI \<open>0x7f\<close>, a control
  character, the message is rejected at this step with \<open>ErrInvalidURI\<close>.
\<close>

theorem VerifySIWS_uri_validation:
  "reaches_uri_validation lib rawMessage signature m params \<longrightarrow>
     (msg_URI m \<noteq> [] \<and> \<not> url_Parse lib (msg_URI m) \<longrightarrow>
        VerifySIWS lib now rawMessage signature (Some m) params = Some ErrInvalidURI) \<and>
     ((msg_URI m = [] \<or> url_Parse lib (msg_URI m)) \<and>
      (\<exists>r\<in>set (msg_Resources m). \<not> url_Parse lib r) \<longrightarrow>
        VerifySIWS lib now rawMessage signature (Some m) params = Some ErrInvalidResourceURI) \<and>
     (url_rejects_control lib \<longrightarrow>
        VerifySIWS lib now rawMessage signature (Some (m\<lparr>msg_URI := [CHR 0x7F]\<rparr>)) params
          = Some ErrInvalidURI)"
proof (intro impI conjI)
  assume r: "reaches_uri_validation lib rawMessage signature m params"
  note at = VerifySIWS_at_uri_validation [OF r, of now]
  show "VerifySIWS lib now rawMessage signature (Some m) params = Some ErrInvalidURI"
    if "msg_URI m \<noteq> [] \<and> \<not> url_Parse lib (msg_URI m)"
    using that by (simp add: at)
  show "VerifySIWS lib now rawMessage signature (Some m) params = Some ErrInvalidResourceURI"
    if "(msg_URI m = [] \<or> url_Parse lib (msg_URI m)) \<and>
        (\<exists>r\<in>set (msg_Resources m). \<not> url_Parse lib r)"
    using that by (auto simp: at)
  show "VerifySIWS lib now rawMessage signature (Some (m\<lparr>msg_URI := [CHR 0x7F]\<rparr>)) params
          = Some ErrInvalidURI"
    if c: "url_rejects_control lib"
  proof -
    have "\<not> url_Parse lib [CHR 0x7F]"
      using c by (simp add: url_rejects_control_def is_CTL_def)
    moreover have "reaches_uri_validation lib rawMessage signature (m\<lparr>msg_URI := [CHR 0x7F]\<rparr>) params"
      using r by (simp add: reaches_uri_validation_URI_update)
    ultimately show ?thesis
      by (simp add: VerifySIWS_at_uri_validation)
  qed
qed

lemma demo_url_rejects_control: "url_rejects_control demo_siws"
  by (simp add: url_rejects_control_def demo_siws_def)

theorem VerifySIWS_uri_validation_witness:
  "VerifySIWS demo_siws 1700000000000000000 ''signed text'' demo_signature
     (Some (demo_message\<lparr>msg_URI := [CHR 0x7F]\<rparr>)) demo_params = Some ErrInvalidURI \<and>
   VerifySIWS demo_siws 1700000000000000000 ''signed text'' demo_signature
     (Some (demo_message\<lparr>msg_Resources := [''https://example.com/a'', [CHR 0x0A]]\<rparr>)) demo_params
     = Some ErrInvalidResourceURI"
proof -
  have r: "reaches_uri_validation demo_siws ''signed text'' demo_signature demo_message demo_params"
    by (simp add: demo_reaches_uri demo_signature_def)
  have r': "reaches_uri_validation demo_siws ''signed text'' demo_signature
     (demo_message\<lparr>msg_Resources := [''https://example.com/a'', [CHR 0x0A]]\<rparr>) demo_params"
    using r by (auto simp: reaches_uri_validation_def)
  show ?thesis
    using r r' demo_url_rejects_control
      VerifySIWS_uri_validation [of demo_siws "''signed text''" demo_signature demo_message
        demo_params 1700000000000000000]
      VerifySIWS_uri_validation [of demo_siws "''signed text''" demo_signature
        "demo_message\<lparr>msg_Resources := [''https://example.com/a'', [CHR 0x0A]]\<rparr>"
        demo_params 1700000000000000000]
    by (simp add: demo_siws_def demo_message_def is_CTL_def)
qed

text \<open>
  C8 as stated fails when both the URI and an entry of the resources are invalid: the
  URI is checked first, and the error is \<open>ErrInvalidURI\<close>, not
  \<open>ErrInvalidResourceURI\<close>.
\<close>

theorem VerifySIWS_resource_uri_counterexample:
  "reaches_uri_validation demo_siws ''signed text'' demo_signature
     (demo_message\<lparr>msg_URI := [CHR 0x7F], msg_Resources := [[CHR 0x7F]]\<rparr>) demo_params \<and>
   \<not> url_Parse demo_siws [CHR 0x7F] \<and>
   VerifySIWS demo_siws 1700000000000000000 ''signed text'' demo_signature
     (Some (demo_message\<lparr>msg_URI := [CHR 0x7F], msg_Resources := [[CHR 0x7F]]\<rparr>)) demo_params
     = Some ErrInvalidURI"
  by (simp add: VerifySIWS_def reaches_uri_validation_def demo_siws_def demo_message_def
      demo_params_def demo_signature_def is_CTL_def bytes_of_string_def Let_def)

section \<open>Ethereum signature verification\<close>


lemma normalize_raw:
  fixes v :: byte
  assumes "length rs = 64"
  shows "(rs @ [v]) ! 64 = v" "(rs @ [v])[64 := w] = rs @ [w]" "length (rs @ [v]) = 65"
  using assms by (simp_all add: nth_append list_update_append)

lemma normalize_recovery_byte:
  fixes w :: byte
  assumes "length rs = 64"
  shows "(if (rs @ [w]) ! 64 < 27 then (rs @ [w])[64 := (rs @ [w]) ! 64 + 27] else rs @ [w])
           = rs @ [if w < 27 then w + 27 else w]"
  using assms by (simp add: normalize_raw)

lemma VerifyEthereumSignature_decoded:
  assumes "length rs = 64"
    and "hex_DecodeString (removeHexPrefix sig) = Some (rs @ [w])"
  shows "VerifyEthereumSignature lib message sig address =
          (case SigToPub lib
                  (Keccak256Hash lib (bytes_of_string
                     (CHR 0x19 # ''Ethereum Signed Message:'' @ [CHR 0x0A] @
                      show_nat (length message) @ message)))
                  (rs @ [if w < 27 then w + 27 else w]) of
             None \<Rightarrow> Some ErrorRecoveringPublicKey
           | Some pubKey \<Rightarrow>
               if PubkeyToAddress lib pubKey \<noteq> HexToAddress lib (removeHexPrefix address)
               then Some SignatureNotFromExpectedAddress else None)"
  unfolding VerifyEthereumSignature_def Let_def assms(2) option.case
    normalize_recovery_byte [OF assms(1)]
  using assms(1) by simp

lemma demo_checks_recovery_id: "checks_recovery_id demo_eth"
  by (simp add: checks_recovery_id_def demo_eth_def word_le_nat_alt word_less_nat_alt)

text \<open>
  The adjusted byte is 27 or more. A library whose \<^verbatim>\<open>SigToPub\<close> returns an error for a
  recovery identifier of 4 or more, as go-ethereum's does, therefore returns an error
  for every signature \<open>VerifyEthereumSignature\<close> hands to it, and the function returns
  \<^verbatim>\<open>nil\<close> for no input.
\<close>

lemma adjusted_recovery_byte_ge_4:
  fixes w :: byte
  shows "4 \<le> (if w < 27 then w + 27 else w)"
proof (cases "w < 27")
  case True
  then have "unat w < 27"
    by (simp add: word_less_nat_alt)
  then have "unat (w + 27) = unat w + 27"
    by (simp add: unat_word_ariths)
  with True show ?thesis
    by (simp add: word_le_nat_alt)
next
  case False
  then have "27 \<le> unat w"
    by (simp add: word_less_nat_alt)
  with False show ?thesis
    by (simp add: word_le_nat_alt)
qed

lemma VerifyEthereumSignature_returns_error:
  assumes "checks_recovery_id lib"
  shows "VerifyEthereumSignature lib message sig address \<noteq> None"
proof (cases "hex_DecodeString (removeHexPrefix sig)")
  case None
  then show ?thesis
    by (simp add: VerifyEthereumSignature_def)
next
  case (Some sigBytes)
  show ?thesis
  proof (cases "length sigBytes = 65")
    case False
    with Some show ?thesis
      by (simp add: VerifyEthereumSignature_def)
  next
    case True
    then have "sigBytes \<noteq> []" by auto
    then obtain rs w where sb: "sigBytes = rs @ [w]"
      by (metis append_butlast_last_id)
    with True have len: "length rs = 64" by simp
    have "(rs @ [if w < 27 then w + 27 else w]) ! 64 = (if w < 27 then w + 27 else w)"
      using len by (simp add: nth_append)
    then have "4 \<le> (rs @ [if w < 27 then w + 27 else w]) ! 64"
      using adjusted_recovery_byte_ge_4 [of w] by simp
    then have "SigToPub lib hash (rs @ [if w < 27 then w + 27 else w]) = None" for hash
      using assms by (simp add: checks_recovery_id_def)
    then show ?thesis
      using Some sb by (simp add: VerifyEthereumSignature_decoded [OF len])
  qed
qed






section \<open>The URL-safe base64 encoding\<close>

text \<open>Decoding what was encoded returns the bytes; the encoding stays in the alphabet.\<close>

lemma length_encodeURL: "length encodeURL = 64"
  by (simp add: encodeURL_def)

lemma distinct_encodeURL: "distinct encodeURL"
  by (simp add: encodeURL_def)

lemma encodeURL_no_newline: "c \<in> set encodeURL \<Longrightarrow> c \<noteq> CHR 0x0A \<and> c \<noteq> CHR 0x0D"
  by (auto simp: encodeURL_def)

lemma index_of_nth: "distinct xs \<Longrightarrow> n < length xs \<Longrightarrow> index_of (xs ! n) xs = Some n"
proof (induction xs arbitrary: n)
  case Nil
  then show ?case by simp
next
  case (Cons x xs)
  then show ?case by (cases n) auto
qed

lemma decodeMap_encodeURL: "n < 64 \<Longrightarrow> decodeMap (encodeURL ! n) = Some n"
  by (simp add: decodeMap_def index_of_nth distinct_encodeURL length_encodeURL)

lemma decode_chars_encode:
  "\<forall>n\<in>set ns. n < 64 \<Longrightarrow> decode_chars (map (\<lambda>n. encodeURL ! n) ns) = Some ns"
  by (induction ns) (simp_all add: decodeMap_encodeURL)

lemma unat_byte: "unat (a :: byte) < 256"
  using unsigned_less [of a, where ?'a = nat] by simp

lemma encode_sextets_bound: "\<forall>n\<in>set (encode_sextets bs). n < 64"
proof (induction bs rule: encode_sextets.induct)
  case (1 a b c rest)
  have "unat a < 256" "unat b < 256" "unat c < 256"
    by (rule unat_byte)+
  then have "unat a div 4 < 64" "(unat a mod 4) * 16 + unat b div 16 < 64"
    "(unat b mod 16) * 4 + unat c div 64 < 64" "unat c mod 64 < 64"
    by arith+
  with 1 show ?case by simp
next
  case (2 a b)
  have "unat a < 256" "unat b < 256"
    by (rule unat_byte)+
  then have "unat a div 4 < 64" "(unat a mod 4) * 16 + unat b div 16 < 64"
    "(unat b mod 16) * 4 < 64"
    by arith+
  then show ?case by simp
next
  case (3 a)
  have "unat a < 256" by (rule unat_byte)
  then have "unat a div 4 < 64" "(unat a mod 4) * 16 < 64" by arith+
  then show ?case by simp
next
  case 4
  then show ?case by simp
qed

lemma div_mod_16:
  fixes q r :: nat
  assumes "r < 16"
  shows "(q * 16 + r) div 16 = q" "(q * 16 + r) mod 16 = r"
  using assms by simp_all

lemma div_mod_4:
  fixes q r :: nat
  assumes "r < 4"
  shows "(q * 4 + r) div 4 = q" "(q * 4 + r) mod 4 = r"
  using assms by simp_all

lemma sextet_arith:
  fixes x y z :: nat
  assumes "y < 256" "z < 256"
  shows "x div 4 * 4 + (x mod 4 * 16 + y div 16) div 16 = x"
    and "(x mod 4 * 16 + y div 16) mod 16 * 16 + (y mod 16 * 4 + z div 64) div 4 = y"
    and "(y mod 16 * 4 + z div 64) mod 4 * 64 + z mod 64 = z"
    and "(x mod 4 * 16 + y div 16) mod 16 * 16 + (y mod 16 * 4) div 4 = y"
    and "x div 4 * 4 + (x mod 4 * 16) div 16 = x"
proof -
  have b: "y div 16 < 16" "z div 64 < 4" using assms by simp_all
  show "x div 4 * 4 + (x mod 4 * 16 + y div 16) div 16 = x"
    using b by (simp add: div_mod_16)
  show "(x mod 4 * 16 + y div 16) mod 16 * 16 + (y mod 16 * 4 + z div 64) div 4 = y"
    using b by (simp add: div_mod_16 div_mod_4)
  show "(y mod 16 * 4 + z div 64) mod 4 * 64 + z mod 64 = z"
    using b by (simp add: div_mod_4)
  show "(x mod 4 * 16 + y div 16) mod 16 * 16 + (y mod 16 * 4) div 4 = y"
    using b by (simp add: div_mod_16)
  show "x div 4 * 4 + (x mod 4 * 16) div 16 = x"
    by simp
qed

lemma decode_encode_sextets: "decode_sextets (encode_sextets bs) = Some bs"
proof (induction bs rule: encode_sextets.induct)
  case (1 a b c rest)
  have "unat b < 256" "unat c < 256"
    by (rule unat_byte)+
  note sextet_arith [OF this]
  with 1 show ?case by simp
next
  case (2 a b)
  have "unat b < 256"
    by (rule unat_byte)
  note sextet_arith [OF this this]
  then show ?case by simp
next
  case (3 a)
  have "unat a < 256" by (rule unat_byte)
  note sextet_arith [OF this this]
  then show ?case by simp
next
  case 4
  then show ?case by simp
qed

lemma DecodeString_EncodeToString: "DecodeString (EncodeToString bs) = Some bs"
proof -
  have "filter (\<lambda>c. c \<noteq> CHR 0x0A \<and> c \<noteq> CHR 0x0D) (EncodeToString bs) = EncodeToString bs"
    using encode_sextets_bound [of bs] encodeURL_no_newline
    by (auto simp: EncodeToString_def filter_id_conv length_encodeURL)
  then show ?thesis
    by (simp add: DecodeString_def)
       (simp add: EncodeToString_def decode_chars_encode encode_sextets_bound decode_encode_sextets)
qed

lemma length_encode_sextets: "length (encode_sextets bs) = (length bs * 4 + 2) div 3"
  by (induction bs rule: encode_sextets.induct) simp_all

lemma EncodeToString_alphabet: "set (EncodeToString bs) \<subseteq> set encodeURL"
  using encode_sextets_bound [of bs] by (auto simp: EncodeToString_def length_encodeURL)


section \<open>The provider: construction and challenges\<close>

lemma SecureToken_Some:
  assumes "16 \<le> length rand"
  shows "SecureToken rand = Some (EncodeToString (take 16 rand))"
  using assms by (simp add: SecureToken_def ReadFull_def)

lemma length_EncodeToString_16: "length bs = 16 \<Longrightarrow> length (EncodeToString bs) = 22"
  by (simp add: EncodeToString_def length_encode_sextets)

text \<open>
  C6, as amended. For every supported chain, \<open>GenerateSignMessage\<close> reads 16 bytes from
  the random source and encodes them as a token of 22 characters of the URL-safe
  alphabet, from which the 16 bytes can be decoded, so that calls reading different
  bytes get different tokens. For a chain of the Solana family this token is the nonce
  of the message handed to \<^verbatim>\<open>siws.ConstructMessage\<close>. For a chain of the Ethereum family
  the nonce in the challenge text is the decimal rendering of the current time in
  nanoseconds since the Unix epoch, and the token is not used.
\<close>

theorem GenerateSignMessage_nonce:
  assumes "chains p (if chain = [] then defaultChain p else chain) = Some chainCfg"
    and "16 \<le> length rand"
  shows "\<exists>nonce.
      SecureToken rand = Some nonce \<and> length nonce = 22 \<and> set nonce \<subseteq> set encodeURL \<and>
      DecodeString nonce = Some (take 16 rand) \<and>
      (\<forall>rand'. 16 \<le> length rand' \<and> take 16 rand' \<noteq> take 16 rand \<longrightarrow>
         SecureToken rand' \<noteq> Some nonce) \<and>
      (NetworkName chainCfg = ''solana'' \<longrightarrow>
         GenerateSignMessage lib p rand now address chain uri =
           Inr (ConstructMessage lib
             \<lparr>msg_Domain = Domain (config p), msg_Address = address,
              msg_Statement = Statement (config p), msg_URI = uri,
              msg_Version = Version (config p), msg_ChainID = [],
              msg_Nonce = nonce, msg_IssuedAt = now, msg_NotBefore = zeroTime,
              msg_ExpirationTime = zeroTime, msg_Resources = []\<rparr>)) \<and>
      (NetworkName chainCfg = ''ethereum'' \<longrightarrow>
         GenerateSignMessage lib p rand now address chain uri =
           Inr (Domain (config p) @ '' wants you to sign in with your ethereum account:'' @
                [CHR 0x0A] @ address @ [CHR 0x0A] @ [CHR 0x0A] @
                ''URI: '' @ uri @ [CHR 0x0A] @
                ''Version: '' @ Version (config p) @ [CHR 0x0A] @
                ''Chain ID: '' @ ChainID chainCfg @ [CHR 0x0A] @
                ''Nonce: '' @ show_int (UnixNano now) @ [CHR 0x0A] @
                ''Issued At: '' @ Format_RFC3339 now @ [CHR 0x0A] @
                ''Expiration Time: '' @ Format_RFC3339 (now + Timeout (config p))))"
proof -
  let ?nonce = "EncodeToString (take 16 rand)"
  have tok: "SecureToken rand = Some ?nonce"
    using assms(2) by (rule SecureToken_Some)
  have len: "length ?nonce = 22"
    using assms(2) by (simp add: length_EncodeToString_16)
  have dec: "DecodeString ?nonce = Some (take 16 rand)"
    by (rule DecodeString_EncodeToString)
  have inj: "SecureToken rand' \<noteq> Some ?nonce"
    if "16 \<le> length rand' \<and> take 16 rand' \<noteq> take 16 rand" for rand'
  proof
    assume "SecureToken rand' = Some ?nonce"
    then have "EncodeToString (take 16 rand') = ?nonce"
      using that by (simp add: SecureToken_Some)
    then have "DecodeString (EncodeToString (take 16 rand')) = DecodeString ?nonce"
      by simp
    then have "take 16 rand' = take 16 rand"
      by (simp add: DecodeString_EncodeToString)
    with that show False by simp
  qed
  have sol: "GenerateSignMessage lib p rand now address chain uri =
           Inr (ConstructMessage lib
             \<lparr>msg_Domain = Domain (config p), msg_Address = address,
              msg_Statement = Statement (config p), msg_URI = uri,
              msg_Version = Version (config p), msg_ChainID = [],
              msg_Nonce = ?nonce, msg_IssuedAt = now, msg_NotBefore = zeroTime,
              msg_ExpirationTime = zeroTime, msg_Resources = []\<rparr>)"
    if "NetworkName chainCfg = ''solana''"
    using that assms(1) tok by (simp add: GenerateSignMessage_def Let_def BlockchainSolana_def)
  have eth: "GenerateSignMessage lib p rand now address chain uri =
           Inr (Domain (config p) @ '' wants you to sign in with your ethereum account:'' @
                [CHR 0x0A] @ address @ [CHR 0x0A] @ [CHR 0x0A] @
                ''URI: '' @ uri @ [CHR 0x0A] @
                ''Version: '' @ Version (config p) @ [CHR 0x0A] @
                ''Chain ID: '' @ ChainID chainCfg @ [CHR 0x0A] @
                ''Nonce: '' @ show_int (UnixNano now) @ [CHR 0x0A] @
                ''Issued At: '' @ Format_RFC3339 now @ [CHR 0x0A] @
                ''Expiration Time: '' @ Format_RFC3339 (now + Timeout (config p)))"
    if "NetworkName chainCfg = ''ethereum''"
    using that assms(1) tok
    by (simp add: GenerateSignMessage_def Let_def BlockchainSolana_def BlockchainEthereum_def
        ethereum_message_def Add_def)
  show ?thesis
    using tok len dec inj sol eth EncodeToString_alphabet [of "take 16 rand"] by blast
qed


theorem GenerateSignMessage_nonce_witness:
  "SecureToken (replicate 16 1) = Some ''AQEBAQEBAQEBAQEBAQEBAQ'' \<and>
   GenerateSignMessage demo_siws demo_provider (replicate 16 1) 1700000000000000000
      ''9xQeWvG816bUx9EPjHmaT23yvVM2ZWbrrpZb9PusVFin'' ''solana-mainnet'' ''https://example.com''
     = Inr (ConstructMessage demo_siws
             \<lparr>msg_Domain = ''example.com'',
              msg_Address = ''9xQeWvG816bUx9EPjHmaT23yvVM2ZWbrrpZb9PusVFin'',
              msg_Statement = ''Sign in'', msg_URI = ''https://example.com'',
              msg_Version = ''1'', msg_ChainID = [],
              msg_Nonce = ''AQEBAQEBAQEBAQEBAQEBAQ'', msg_IssuedAt = 1700000000000000000,
              msg_NotBefore = zeroTime, msg_ExpirationTime = zeroTime, msg_Resources = []\<rparr>)"
proof -
  have tok: "SecureToken (replicate 16 1) = Some ''AQEBAQEBAQEBAQEBAQEBAQ''"
    by code_simp
  have ch: "chains demo_provider (if ''solana-mainnet'' = [] then defaultChain demo_provider
              else ''solana-mainnet'') = Some \<lparr>NetworkName = ''solana'', ChainID = ''mainnet''\<rparr>"
    by (simp add: demo_provider_def demo_chains_def)
  have len: "16 \<le> length (replicate 16 (1 :: byte))"
    by simp
  from GenerateSignMessage_nonce [OF ch len, of demo_siws 1700000000000000000
      "''9xQeWvG816bUx9EPjHmaT23yvVM2ZWbrrpZb9PusVFin''" "''https://example.com''"]
  show ?thesis
    using tok by (auto simp: demo_provider_def demo_config_def)
qed

text \<open>
  C6 as stated, for both chain families, fails for the Ethereum family: two calls at
  the same time with different random bytes return the same challenge, whose nonce is
  the time in nanoseconds, not the token.
\<close>

theorem GenerateSignMessage_ethereum_nonce_counterexample:
  "GenerateSignMessage demo_siws demo_provider (replicate 16 0) 1700000000000000000
      ''0xAb5801a7D398351b8bE11C439e05C5B3259aeC9B'' ''ethereum-mainnet'' ''https://example.com''
     = Inr ''example.com wants you to sign in with your ethereum account:\<newline>0xAb5801a7D398351b8bE11C439e05C5B3259aeC9B\<newline>\<newline>URI: https://example.com\<newline>Version: 1\<newline>Chain ID: 1\<newline>Nonce: 1700000000000000000\<newline>Issued At: 2023-11-14T22:13:20Z\<newline>Expiration Time: 2023-11-14T22:23:20Z'' \<and>
   GenerateSignMessage demo_siws demo_provider (replicate 16 255) 1700000000000000000
      ''0xAb5801a7D398351b8bE11C439e05C5B3259aeC9B'' ''ethereum-mainnet'' ''https://example.com''
     = Inr ''example.com wants you to sign in with your ethereum account:\<newline>0xAb5801a7D398351b8bE11C439e05C5B3259aeC9B\<newline>\<newline>URI: https://example.com\<newline>Version: 1\<newline>Chain ID: 1\<newline>Nonce: 1700000000000000000\<newline>Issued At: 2023-11-14T22:13:20Z\<newline>Expiration Time: 2023-11-14T22:23:20Z'' \<and>
   SecureToken (replicate 16 0) = Some ''AAAAAAAAAAAAAAAAAAAAAA'' \<and>
   SecureToken (replicate 16 255) = Some ''_____________________w''"
  by code_simp

text \<open>
  C10. For every configuration whose \<open>Enabled\<close> flag is false, \<open>NewWeb3Provider\<close> returns
  an error and no provider. It returns a provider exactly when \<open>Enabled\<close> is true, the
  chain table parses, and the default chain is empty or a key of the parsed table; the
  provider then holds the configuration, the parsed table and the default chain.
\<close>

theorem NewWeb3Provider_enabled:
  "(\<not> Enabled cfg \<longrightarrow> NewWeb3Provider parse cfg = Inl NotEnabled) \<and>
   (\<forall>p. NewWeb3Provider parse cfg = Inr p \<longleftrightarrow>
      Enabled cfg \<and>
      (\<exists>chs. parse cfg = Inr chs \<and>
             (DefaultChain cfg = [] \<or> DefaultChain cfg \<in> dom chs) \<and>
             p = \<lparr>config = cfg, chains = chs, defaultChain = DefaultChain cfg\<rparr>))"
  by (auto simp: NewWeb3Provider_def split: sum.splits)

theorem NewWeb3Provider_enabled_witness:
  "NewWeb3Provider (\<lambda>c. Inr demo_chains) (demo_config\<lparr>Enabled := False\<rparr>) = Inl NotEnabled \<and>
   NewWeb3Provider (\<lambda>c. Inr demo_chains) demo_config = Inr demo_provider \<and>
   NewWeb3Provider (\<lambda>c. Inr demo_chains) (demo_config\<lparr>DefaultChain := ''bitcoin''\<rparr>)
     = Inl (DefaultChainNotSupported ''bitcoin'') \<and>
   NewWeb3Provider (\<lambda>c. Inl ''invalid chain format'') demo_config
     = Inl (ParseChainsError ''invalid chain format'')"
  using NewWeb3Provider_enabled [of "demo_config\<lparr>Enabled := False\<rparr>" "\<lambda>c. Inr demo_chains"]
    NewWeb3Provider_enabled [of demo_config "\<lambda>c. Inr demo_chains"]
  by (simp add: NewWeb3Provider_def demo_config_def demo_provider_def demo_chains_def)

end
